theory Spec2Isabelle
  imports Complex_Main "HOL-Library.AList"
begin

section \<open>Data model (generation/models/config.py, generation/models/results.py)\<close>

text \<open>
  Python floats are modelled as \<^typ>\<open>real\<close> and Python ints as \<^typ>\<open>int\<close>; lengths
  and counts of rows are \<^typ>\<open>nat\<close>. A table cell is \<open>None\<close>/NaN, a number or a
  string. A pandas DataFrame built from a dict of equally long lists is the association
  list of its columns, in insertion order.
\<close>

datatype cell = Null | Num real | Str string

type_synonym DataFrame = "(string \<times> cell list) list"

datatype GenerationStatus = PENDING | IN_PROGRESS | COMPLETED | FAILED | CANCELLED

datatype DataQualityIssue =
  MISSING_VALUES | DUPLICATE_VALUES | OUT_OF_RANGE | INVALID_FORMAT
  | RELATIONSHIP_VIOLATION | DISTRIBUTION_DEVIATION | PATTERN_VIOLATION | CUSTOM_ISSUE

text \<open>
  \<open>DataQualityCheck\<close>; the human-readable \<open>description\<close> (an f-string that
  formats floats) and the unused \<open>details\<close> are left out.
\<close>

record DataQualityCheck =
  check_name :: string
  check_type :: DataQualityIssue
  check_variable_name :: "string option"
  passed :: bool
  issue_count :: int

text \<open>
  A bound of a \<open>ValueConstraint\<close> is declared \<open>Union[int, float, str, date]\<close>; the
  model keeps the three forms the generators distinguish.
\<close>

datatype bound = BInt int | BFloat real | BStr string

record ValueConstraint =
  min_value :: "bound option"
  max_value :: "bound option"
  allowed_values :: "cell list option"
  format_pattern :: "string option"
  unique :: bool
  nullable :: bool
  null_probability :: real

datatype DataDistribution =
  NORMAL | UNIFORM | BINOMIAL | EXPONENTIAL | POISSON | CATEGORICAL | CUSTOM

text \<open>
  \<open>distribution_params\<close> is a \<open>Dict[str, Any]\<close>; the model is the typed view of the
  keys the generators read with \<open>params.get\<close> (an absent key is \<open>None\<close>).
\<close>

record DistributionParams =
  p_mean :: "real option"
  p_std :: "real option"
  p_lambda :: "real option"
  p_scale :: "real option"
  p_n :: "int option"
  p_p :: "real option"
  p_integer :: "bool option"
  p_probabilities :: "real list option"
  p_min_length :: "int option"
  p_max_length :: "int option"

record VariableGenerationConfig =
  variable_name :: string
  data_type :: string
  distribution :: "DataDistribution option"
  distribution_params :: "DistributionParams option"
  constraints :: "ValueConstraint option"

record DomainGenerationConfig =
  domain_name :: string
  domain_type :: string
  record_count :: int
  subject_count :: int
  variables :: "VariableGenerationConfig list"

text \<open>Exceptions are values; \<open>error_str\<close> is Python's \<open>str(e)\<close>.\<close>

datatype error =
  ValueError string | TypeError string | ValidationError string
  | ZeroDivisionError string | KeyError string | OverflowError string | AttributeError string

fun error_str :: "error \<Rightarrow> string" where
  "error_str (ValueError m) = m"
| "error_str (TypeError m) = m"
| "error_str (ValidationError m) = m"
| "error_str (ZeroDivisionError m) = m"
| "error_str (KeyError m) = m"
| "error_str (OverflowError m) = m"
| "error_str (AttributeError m) = m"

section \<open>Strings and columns\<close>

text \<open>\<open>str.lower()\<close> on ASCII letters.\<close>

definition lower_char :: "char \<Rightarrow> char" where
  "lower_char c =
     (case map_of (zip ''ABCDEFGHIJKLMNOPQRSTUVWXYZ'' ''abcdefghijklmnopqrstuvwxyz'') c of
        Some d \<Rightarrow> d | None \<Rightarrow> c)"

definition lower :: "string \<Rightarrow> string" where
  "lower s = map lower_char s"

text \<open>Python's \<open><\<close> on strings: lexicographic by code point.\<close>

fun str_less :: "string \<Rightarrow> string \<Rightarrow> bool" where
  "str_less [] [] = False"
| "str_less [] (y # ys) = True"
| "str_less (x # xs) [] = False"
| "str_less (x # xs) (y # ys) =
     ((of_char x :: nat) < of_char y \<or> ((of_char x :: nat) = of_char y \<and> str_less xs ys))"

text \<open>
  \<open>Series.unique()\<close>: the distinct values in order of first appearance (all missing
  values count as one value). \<open>Series.nunique()\<close> counts the distinct values that are
  not missing; \<open>Series.isna().sum()\<close> counts the missing ones.
\<close>

fun unique_values :: "'a list \<Rightarrow> 'a list" where
  "unique_values [] = []"
| "unique_values (x # xs) = x # unique_values (filter (\<lambda>y. y \<noteq> x) xs)"

definition nunique :: "cell list \<Rightarrow> nat" where
  "nunique col = length (unique_values (filter (\<lambda>c. c \<noteq> Null) col))"

definition isna_sum :: "cell list \<Rightarrow> nat" where
  "isna_sum col = length (filter (\<lambda>c. c = Null) col)"

text \<open>
  \<open>pd.DataFrame(data)\<close> on a dict of lists raises \<open>ValueError\<close> unless all lists have
  the same length; \<open>len(df)\<close> is that length, and 0 for a frame without columns.
\<close>

definition pd_DataFrame :: "(string \<times> cell list) list \<Rightarrow> error + DataFrame" where
  "pd_DataFrame data =
     (if \<forall>c \<in> set data. length (snd c) = length (snd (hd data))
      then Inr data
      else Inl (ValueError ''All arrays must be of the same length''))"

definition len_df :: "DataFrame \<Rightarrow> nat" where
  "len_df df = (case df of [] \<Rightarrow> 0 | c # _ \<Rightarrow> length (snd c))"

section \<open>Quality checks (BaseGenerator.perform_quality_checks)\<close>

text \<open>
  One cell of \<open>data[var_name] < bound\<close> and \<open>data[var_name] > bound\<close>: a missing cell
  compares false, a number compares with a number, a string with a string, and a number
  against a string raises \<open>TypeError\<close>.
\<close>

fun bound_num :: "bound \<Rightarrow> real option" where
  "bound_num (BInt i) = Some (real_of_int i)"
| "bound_num (BFloat x) = Some x"
| "bound_num (BStr s) = None"

fun cell_lt :: "cell \<Rightarrow> bound \<Rightarrow> error + bool" where
  "cell_lt Null b = Inr False"
| "cell_lt (Num x) (BInt i) = Inr (x < real_of_int i)"
| "cell_lt (Num x) (BFloat y) = Inr (x < y)"
| "cell_lt (Str s) (BStr t) = Inr (str_less s t)"
| "cell_lt _ _ = Inl (TypeError ''< not supported between these instances'')"

fun cell_gt :: "cell \<Rightarrow> bound \<Rightarrow> error + bool" where
  "cell_gt Null b = Inr False"
| "cell_gt (Num x) (BInt i) = Inr (x > real_of_int i)"
| "cell_gt (Num x) (BFloat y) = Inr (x > y)"
| "cell_gt (Str s) (BStr t) = Inr (str_less t s)"
| "cell_gt _ _ = Inl (TypeError ''> not supported between these instances'')"

text \<open>\<open>(column < bound).sum()\<close>: the number of cells for which the comparison holds.\<close>

fun count_cmp :: "(cell \<Rightarrow> bound \<Rightarrow> error + bool) \<Rightarrow> cell list \<Rightarrow> bound \<Rightarrow> error + nat" where
  "count_cmp cmp [] b = Inr 0"
| "count_cmp cmp (c # cs) b =
     (case cmp c b of
        Inl e \<Rightarrow> Inl e
      | Inr t \<Rightarrow>
          (case count_cmp cmp cs b of
             Inl e \<Rightarrow> Inl e
           | Inr k \<Rightarrow> Inr (if t then Suc k else k)))"

text \<open>
  The missing-value check of one variable. \<open>expected_missing = constraints and
  constraints.nullable\<close> is \<open>None\<close> when the variable has no constraints, and
  \<open>DataQualityCheck(passed=None)\<close> is rejected by the model's validation of the
  \<open>bool\<close> field.
\<close>

definition missing_check ::
  "int \<Rightarrow> VariableGenerationConfig \<Rightarrow> cell list \<Rightarrow> error + DataQualityCheck list" where
  "missing_check rc variable col =
     (let missing_count = isna_sum col in
      if missing_count > 0 then
        (case constraints variable of
           None \<Rightarrow> Inl (ValidationError ''passed: none is not an allowed value'')
         | Some c \<Rightarrow>
             (let expected_missing = nullable c in
              if \<not> expected_missing \<or> real missing_count > real_of_int rc * 0.5
              then Inr [\<lparr>check_name = variable_name variable @ ''_missing_values'',
                         check_type = MISSING_VALUES,
                         check_variable_name = Some (variable_name variable),
                         passed = expected_missing,
                         issue_count = int missing_count\<rparr>]
              else Inr []))
      else Inr [])"

definition duplicate_check ::
  "DataFrame \<Rightarrow> VariableGenerationConfig \<Rightarrow> cell list \<Rightarrow> DataQualityCheck list" where
  "duplicate_check data variable col =
     (case constraints variable of
        None \<Rightarrow> []
      | Some c \<Rightarrow>
          if unique c then
            (let duplicate_count = int (len_df data) - int (nunique col) in
             if duplicate_count > 0
             then [\<lparr>check_name = variable_name variable @ ''_duplicate_values'',
                    check_type = DUPLICATE_VALUES,
                    check_variable_name = Some (variable_name variable),
                    passed = False,
                    issue_count = duplicate_count\<rparr>]
             else [])
          else [])"

definition bound_check ::
  "(cell \<Rightarrow> bound \<Rightarrow> error + bool) \<Rightarrow> string \<Rightarrow> VariableGenerationConfig \<Rightarrow> cell list
     \<Rightarrow> bound option \<Rightarrow> error + DataQualityCheck list" where
  "bound_check cmp suffix variable col b =
     (case b of
        None \<Rightarrow> Inr []
      | Some v \<Rightarrow>
          (case count_cmp cmp col v of
             Inl e \<Rightarrow> Inl e
           | Inr k \<Rightarrow>
               if k > 0
               then Inr [\<lparr>check_name = variable_name variable @ suffix,
                          check_type = OUT_OF_RANGE,
                          check_variable_name = Some (variable_name variable),
                          passed = False,
                          issue_count = int k\<rparr>]
               else Inr []))"

definition range_checks ::
  "VariableGenerationConfig \<Rightarrow> cell list \<Rightarrow> error + DataQualityCheck list" where
  "range_checks variable col =
     (case constraints variable of
        None \<Rightarrow> Inr []
      | Some c \<Rightarrow>
          if lower (data_type variable) = ''numeric'' then
            (case bound_check cell_lt ''_below_minimum'' variable col (min_value c) of
               Inl e \<Rightarrow> Inl e
             | Inr lo \<Rightarrow>
                 (case bound_check cell_gt ''_above_maximum'' variable col (max_value c) of
                    Inl e \<Rightarrow> Inl e
                  | Inr hi \<Rightarrow> Inr (lo @ hi)))
          else Inr [])"

text \<open>
  The body of the loop for one variable: the checks it appends, or the exception it
  raises. The first argument is the generator's \<open>self.record_count\<close>.
\<close>

definition variable_checks ::
  "int \<Rightarrow> DataFrame \<Rightarrow> VariableGenerationConfig \<Rightarrow> error + DataQualityCheck list" where
  "variable_checks rc data variable =
     (case map_of data (variable_name variable) of
        None \<Rightarrow> Inr []
      | Some col \<Rightarrow>
          (case missing_check rc variable col of
             Inl e \<Rightarrow> Inl e
           | Inr ms \<Rightarrow>
               (case range_checks variable col of
                  Inl e \<Rightarrow> Inl e
                | Inr rs \<Rightarrow> Inr (ms @ duplicate_check data variable col @ rs))))"

fun perform_quality_checks ::
  "int \<Rightarrow> DataFrame \<Rightarrow> VariableGenerationConfig list \<Rightarrow> error + DataQualityCheck list" where
  "perform_quality_checks rc data [] = Inr []"
| "perform_quality_checks rc data (v # vs) =
     (case variable_checks rc data v of
        Inl e \<Rightarrow> Inl e
      | Inr cs \<Rightarrow>
          (case perform_quality_checks rc data vs of
             Inl e \<Rightarrow> Inl e
           | Inr ds \<Rightarrow> Inr (cs @ ds)))"

section \<open>Quality score (BaseGenerator.calculate_quality_score)\<close>

text \<open>The penalty weight of one failed check, by its type (the \<open>if/elif\<close> chain).\<close>

fun penalty :: "DataQualityIssue \<Rightarrow> real" where
  "penalty MISSING_VALUES = 20"
| "penalty DUPLICATE_VALUES = 15"
| "penalty OUT_OF_RANGE = 10"
| "penalty INVALID_FORMAT = 5"
| "penalty _ = 5"

text \<open>The \<open>for check in quality_checks\<close> loop, with the running \<open>score\<close>.\<close>

fun score_loop :: "int \<Rightarrow> real \<Rightarrow> DataQualityCheck list \<Rightarrow> real" where
  "score_loop total_records score [] = score"
| "score_loop total_records score (c # cs) =
     score_loop total_records
       (if \<not> passed c
        then score - penalty (check_type c) * (real_of_int (issue_count c) / real_of_int total_records)
        else score)
       cs"

text \<open>
  \<open>calculate_quality_score\<close>; the first argument is \<open>self.result.record_count\<close> as the
  method reads it.
\<close>

definition calculate_quality_score :: "int \<Rightarrow> DataQualityCheck list \<Rightarrow> real" where
  "calculate_quality_score total_records quality_checks =
     (if quality_checks = [] then 100
      else if total_records = 0 then 0
      else max 0 (min 100 (score_loop total_records 100 quality_checks)))"

section \<open>Randomness and the numpy primitives\<close>

text \<open>
  Randomness is an input of the model. A value of type \<open>rng\<close> supplies the raw variates
  of the sampling calls made for one column: \<open>\<rho> c i\<close> is the \<open>i\<close>-th variate of the
  \<open>c\<close>-th call. Every theorem below holds for all such inputs, hence for every seed.
  A call with \<open>size = n\<close> returns exactly \<open>n\<close> values and raises \<open>ValueError\<close> for a
  negative \<open>n\<close> or an invalid distribution parameter, as numpy does. The location-scale
  families are written out (\<open>mean + std * z\<close>, \<open>low + (high - low) * u\<close>); for the
  other families the variate itself is the value returned.
\<close>

type_synonym rng = "nat \<Rightarrow> nat \<Rightarrow> real"

definition np_draws :: "int \<Rightarrow> (nat \<Rightarrow> real) \<Rightarrow> error + real list" where
  "np_draws count f =
     (if count < 0 then Inl (ValueError ''negative dimensions are not allowed'')
      else Inr (map f [0..<nat count]))"

definition np_random_normal :: "real \<Rightarrow> real \<Rightarrow> int \<Rightarrow> (nat \<Rightarrow> real) \<Rightarrow> error + real list" where
  "np_random_normal mean std count z =
     (if std < 0 then Inl (ValueError ''scale < 0'')
      else np_draws count (\<lambda>i. mean + std * z i))"

definition np_random_uniform :: "real \<Rightarrow> real \<Rightarrow> int \<Rightarrow> (nat \<Rightarrow> real) \<Rightarrow> error + real list" where
  "np_random_uniform low high count u = np_draws count (\<lambda>i. low + (high - low) * u i)"

definition np_random_poisson :: "real \<Rightarrow> int \<Rightarrow> (nat \<Rightarrow> real) \<Rightarrow> error + real list" where
  "np_random_poisson lam count k =
     (if lam < 0 then Inl (ValueError ''lam < 0'') else np_draws count k)"

definition np_random_exponential :: "real \<Rightarrow> int \<Rightarrow> (nat \<Rightarrow> real) \<Rightarrow> error + real list" where
  "np_random_exponential scale count x =
     (if scale < 0 then Inl (ValueError ''scale < 0'')
      else np_draws count (\<lambda>i. scale * x i))"

definition np_random_gamma :: "real \<Rightarrow> real \<Rightarrow> int \<Rightarrow> (nat \<Rightarrow> real) \<Rightarrow> error + real list" where
  "np_random_gamma shape scale count x =
     (if shape < 0 then Inl (ValueError ''shape < 0'')
      else if scale < 0 then Inl (ValueError ''scale < 0'')
      else np_draws count (\<lambda>i. scale * x i))"

definition np_random_beta :: "real \<Rightarrow> real \<Rightarrow> int \<Rightarrow> (nat \<Rightarrow> real) \<Rightarrow> error + real list" where
  "np_random_beta a b count x =
     (if a \<le> 0 then Inl (ValueError ''a <= 0'')
      else if b \<le> 0 then Inl (ValueError ''b <= 0'')
      else np_draws count x)"

definition np_random_lognormal :: "real \<Rightarrow> real \<Rightarrow> int \<Rightarrow> (nat \<Rightarrow> real) \<Rightarrow> error + real list" where
  "np_random_lognormal mean sigma count z =
     (if sigma < 0 then Inl (ValueError ''sigma < 0'')
      else np_draws count (\<lambda>i. exp (mean + sigma * z i)))"

definition np_random_binomial :: "real \<Rightarrow> real \<Rightarrow> int \<Rightarrow> (nat \<Rightarrow> real) \<Rightarrow> error + real list" where
  "np_random_binomial n p count k =
     (if n < 0 then Inl (ValueError ''n < 0'')
      else if p < 0 then Inl (ValueError ''p < 0'')
      else if p > 1 then Inl (ValueError ''p > 1'')
      else np_draws count k)"

text \<open>\<open>np.round\<close> followed by \<open>astype(int)\<close>: rounding to the nearest integer, ties to even.\<close>

definition rint :: "real \<Rightarrow> int" where
  "rint x =
     (let f = \<lfloor>x\<rfloor>; d = x - real_of_int f in
      if d < 1 / 2 then f
      else if d > 1 / 2 then f + 1
      else if even f then f else f + 1)"

section \<open>Numeric sampler (generation/utils/sampling.py, sample_numeric)\<close>

text \<open>\<open>params.get(key, default)\<close> on a dict of numbers.\<close>

definition params_get :: "(string \<rightharpoonup> real) \<Rightarrow> string \<Rightarrow> real \<Rightarrow> real" where
  "params_get params key dflt = (case params key of None \<Rightarrow> dflt | Some v \<Rightarrow> v)"

text \<open>The \<open>if/elif\<close> chain on the distribution name: the raw values, before clipping.\<close>

definition sample_raw ::
  "string \<Rightarrow> (string \<rightharpoonup> real) \<Rightarrow> real option \<Rightarrow> real option \<Rightarrow> int \<Rightarrow> (nat \<Rightarrow> real)
     \<Rightarrow> error + real list" where
  "sample_raw dist_name params min_val max_val count \<rho> =
     (if dist_name = ''normal'' then
        np_random_normal (params_get params ''mean'' 0) (params_get params ''std'' 1) count \<rho>
      else if dist_name = ''uniform'' then
        np_random_uniform
          (case min_val of None \<Rightarrow> params_get params ''low'' 0 | Some lo \<Rightarrow> lo)
          (case max_val of None \<Rightarrow> params_get params ''high'' 1 | Some hi \<Rightarrow> hi) count \<rho>
      else if dist_name = ''poisson'' then
        np_random_poisson (params_get params ''lambda'' 5) count \<rho>
      else if dist_name = ''exponential'' then
        np_random_exponential (params_get params ''scale'' 1) count \<rho>
      else if dist_name = ''gamma'' then
        np_random_gamma (params_get params ''shape'' 1) (params_get params ''scale'' 1) count \<rho>
      else if dist_name = ''beta'' then
        np_random_beta (params_get params ''alpha'' 1) (params_get params ''beta'' 1) count \<rho>
      else if dist_name = ''lognormal'' then
        np_random_lognormal (params_get params ''mean'' 0) (params_get params ''sigma'' 1) count \<rho>
      else if dist_name = ''binomial'' then
        np_random_binomial (params_get params ''n'' 10) (params_get params ''p'' 0.5) count \<rho>
      else
        np_random_uniform
          (case min_val of None \<Rightarrow> params_get params ''low'' 0 | Some lo \<Rightarrow> lo)
          (case max_val of None \<Rightarrow> params_get params ''high'' 1 | Some hi \<Rightarrow> hi) count \<rho>)"

text \<open>
  The tail of \<open>sample_numeric\<close> on one value: \<open>np.maximum\<close> with the lower bound, then
  \<open>np.minimum\<close> with the upper bound, then rounding when \<open>as_integer\<close>.
\<close>

definition apply_bounds :: "real option \<Rightarrow> real option \<Rightarrow> bool \<Rightarrow> real \<Rightarrow> real" where
  "apply_bounds min_val max_val as_integer v =
     (let v1 = (case min_val of None \<Rightarrow> v | Some lo \<Rightarrow> max v lo);
          v2 = (case max_val of None \<Rightarrow> v1 | Some hi \<Rightarrow> min v1 hi)
      in if as_integer then real_of_int (rint v2) else v2)"

definition sample_numeric ::
  "string \<Rightarrow> (string \<rightharpoonup> real) \<Rightarrow> real option \<Rightarrow> real option \<Rightarrow> int \<Rightarrow> bool \<Rightarrow> (nat \<Rightarrow> real)
     \<Rightarrow> error + real list" where
  "sample_numeric dist_name params min_val max_val count as_integer \<rho> =
     (case sample_raw dist_name params min_val max_val count \<rho> of
        Inl e \<Rightarrow> Inl e
      | Inr values \<Rightarrow> Inr (map (apply_bounds min_val max_val as_integer) values))"



section \<open>Helpers of the generators\<close>

text \<open>\<open>ValueConstraint()\<close> and \<open>{}\<close>: the defaults used when a variable gives none.\<close>

definition default_constraint :: ValueConstraint where
  "default_constraint =
     \<lparr>min_value = None, max_value = None, allowed_values = None, format_pattern = None,
      unique = False, nullable = False, null_probability = 0\<rparr>"

definition default_params :: DistributionParams where
  "default_params =
     \<lparr>p_mean = None, p_std = None, p_lambda = None, p_scale = None, p_n = None, p_p = None,
      p_integer = None, p_probabilities = None, p_min_length = None, p_max_length = None\<rparr>"

definition get_or :: "'a option \<Rightarrow> 'a \<Rightarrow> 'a" where
  "get_or v dflt = (case v of None \<Rightarrow> dflt | Some x \<Rightarrow> x)"

text \<open>\<open>isinstance(b, int)\<close> on a bound.\<close>

fun is_int_bound :: "bound \<Rightarrow> bool" where
  "is_int_bound (BInt i) = True"
| "is_int_bound _ = False"

text \<open>\<open>int(x)\<close> on a float: truncation towards zero.\<close>

definition py_int :: "real \<Rightarrow> int" where
  "py_int x = (if 0 \<le> x then \<lfloor>x\<rfloor> else \<lceil>x\<rceil>)"

text \<open>
  The loop that replaces a value by \<open>None\<close> when \<open>random.random() < null_probability\<close>,
  run only for a nullable variable with a positive probability.
\<close>

definition apply_nulls :: "ValueConstraint \<Rightarrow> (nat \<Rightarrow> real) \<Rightarrow> cell list \<Rightarrow> cell list" where
  "apply_nulls c u xs =
     (if nullable c \<and> null_probability c > 0
      then map (\<lambda>(i, x). if u i < null_probability c then Null else x) (enumerate 0 xs)
      else xs)"

text \<open>
  \<open>np.array(a)\<close> on a list of cells, as \<open>np.random.choice\<close> applies it to its first
  argument. A list of strings stays a list of strings and a list of numbers a list of
  numbers. A list that holds \<open>None\<close> becomes an array of objects, its elements unchanged.
  A list that mixes numbers and strings and holds no \<open>None\<close> becomes an array of strings:
  every number is replaced by its text. That text is an input of the model (a Python int
  and the float equal to it are the same \<open>Num\<close> but have different texts): \<open>\<tau> i x\<close> is
  the text numpy gives the number \<open>x\<close> at position \<open>i\<close> of the list. Lists of ints, such
  as the years, months and days of a date fit, are not changed by the conversion.
\<close>

type_synonym np_text = "nat \<Rightarrow> real \<Rightarrow> string"

definition is_num :: "cell \<Rightarrow> bool" where
  "is_num c = (case c of Num x \<Rightarrow> True | _ \<Rightarrow> False)"

definition is_str :: "cell \<Rightarrow> bool" where
  "is_str c = (case c of Str s \<Rightarrow> True | _ \<Rightarrow> False)"

definition mixed_types :: "cell list \<Rightarrow> bool" where
  "mixed_types a = (list_ex is_num a \<and> list_ex is_str a \<and> \<not> list_ex (\<lambda>c. c = Null) a)"

definition np_array :: "np_text \<Rightarrow> cell list \<Rightarrow> cell list" where
  "np_array \<tau> a =
     (if mixed_types a
      then map (\<lambda>(i, c). case c of Num x \<Rightarrow> Str (\<tau> i x) | _ \<Rightarrow> c) (enumerate 0 a)
      else a)"

text \<open>
  \<open>np.random.choice(a, size=n, p=p)\<close>: the checks of its arguments, then inversion of the
  cumulative distribution, \<open>cdf.searchsorted(u, side='right')\<close>, on uniform variates.
  The probabilities must sum to 1 (numpy allows a rounding tolerance; the model is exact).
\<close>

fun cumsum_from :: "real \<Rightarrow> real list \<Rightarrow> real list" where
  "cumsum_from acc [] = []"
| "cumsum_from acc (p # ps) = (acc + p) # cumsum_from (acc + p) ps"

definition searchsorted_right :: "real list \<Rightarrow> real \<Rightarrow> nat" where
  "searchsorted_right cdf u = length (filter (\<lambda>c. c \<le> u) cdf)"

definition np_random_choice :: "'a list \<Rightarrow> int \<Rightarrow> real list \<Rightarrow> (nat \<Rightarrow> real) \<Rightarrow> error + 'a list" where
  "np_random_choice a n p u =
     (if a = [] \<and> n \<noteq> 0 then Inl (ValueError ''a cannot be empty unless no samples are taken'')
      else if length p \<noteq> length a then Inl (ValueError ''a and p must have same size'')
      else if \<exists>x \<in> set p. x < 0 then Inl (ValueError ''probabilities are not non-negative'')
      else if sum_list p \<noteq> 1 then Inl (ValueError ''probabilities do not sum to 1'')
      else if n < 0 then Inl (ValueError ''negative dimensions are not allowed'')
      else Inr (map (\<lambda>i. a ! searchsorted_right (cumsum_from 0 p) (u i)) [0..<nat n]))"

text \<open>
  \<open>random.randint(a, b)\<close> raises \<open>ValueError\<close> on an empty range; \<open>random.choice(seq)\<close>
  picks an element. Both are driven by a uniform variate \<open>u\<close> in [0,1).
\<close>

definition random_randint :: "int \<Rightarrow> int \<Rightarrow> real \<Rightarrow> error + int" where
  "random_randint a b u =
     (if b < a then Inl (ValueError ''empty range for randrange()'')
      else Inr (a + \<lfloor>u * real_of_int (b - a + 1)\<rfloor>))"

definition random_choice :: "'a list \<Rightarrow> real \<Rightarrow> 'a" where
  "random_choice seq u = seq ! nat \<lfloor>u * real (length seq)\<rfloor>"

text \<open>Running a fallible step for each element of a list, stopping at the first exception.\<close>

fun map_err :: "('a \<Rightarrow> error + 'b) \<Rightarrow> 'a list \<Rightarrow> error + 'b list" where
  "map_err f [] = Inr []"
| "map_err f (x # xs) =
     (case f x of
        Inl e \<Rightarrow> Inl e
      | Inr y \<Rightarrow> (case map_err f xs of Inl e \<Rightarrow> Inl e | Inr ys \<Rightarrow> Inr (y # ys)))"

text \<open>Decimal digits: \<open>str(n)\<close>, \<open>str.zfill\<close>, and reading a digit string.\<close>

fun str_nat :: "nat \<Rightarrow> string" where
  "str_nat n =
     (if n < 10 then [''0123456789'' ! n]
      else str_nat (n div 10) @ [''0123456789'' ! (n mod 10)])"

definition zfill :: "nat \<Rightarrow> string \<Rightarrow> string" where
  "zfill w s = replicate (w - length s) CHR ''0'' @ s"

definition digit_val :: "char \<Rightarrow> nat option" where
  "digit_val c = map_of (zip ''0123456789'' [0, 1, 2, 3, 4, 5, 6, 7, 8, 9]) c"

fun digits_val :: "nat \<Rightarrow> string \<Rightarrow> nat option" where
  "digits_val acc [] = Some acc"
| "digits_val acc (c # cs) =
     (case digit_val c of None \<Rightarrow> None | Some d \<Rightarrow> digits_val (10 * acc + d) cs)"

section \<open>Calendar dates (datetime)\<close>

text \<open>
  A date is \<open>(year, month, day)\<close>. \<open>datetime(y, m, d)\<close> raises \<open>ValueError\<close> unless
  \<open>1 \<le> y \<le> 9999\<close>, \<open>1 \<le> m \<le> 12\<close> and \<open>d\<close> is a day of that month.
\<close>

type_synonym date = "int \<times> int \<times> int"

definition is_leap :: "int \<Rightarrow> bool" where
  "is_leap y = (y mod 4 = 0 \<and> (y mod 100 \<noteq> 0 \<or> y mod 400 = 0))"

definition days_in_month :: "int \<Rightarrow> int \<Rightarrow> int" where
  "days_in_month y m =
     (if m = 2 then (if is_leap y then 29 else 28)
      else if m \<in> {4, 6, 9, 11} then 30 else 31)"

definition datetime_new :: "int \<Rightarrow> int \<Rightarrow> int \<Rightarrow> error + date" where
  "datetime_new y m d =
     (if y < 1 \<or> y > 9999 then Inl (ValueError ''year is out of range'')
      else if m < 1 \<or> m > 12 then Inl (ValueError ''month must be in 1..12'')
      else if d < 1 \<or> d > days_in_month y m then Inl (ValueError ''day is out of range for month'')
      else Inr (y, m, d))"

text \<open>\<open>strftime("%Y-%m-%d")\<close>: month and day are padded to two digits.\<close>

definition strftime_ymd :: "date \<Rightarrow> string" where
  "strftime_ymd dt =
     (case dt of (y, m, d) \<Rightarrow>
        str_nat (nat y) @ ''-'' @ zfill 2 (str_nat (nat m)) @ ''-'' @ zfill 2 (str_nat (nat d)))"

text \<open>
  The proleptic Gregorian ordinal of a date and its inverse (\<open>date.toordinal\<close>,
  \<open>date.fromordinal\<close>), which carry \<open>max_date - min_date\<close> and
  \<open>min_date + timedelta(days)\<close>.
\<close>

definition days_before_year :: "int \<Rightarrow> int" where
  "days_before_year y = (y - 1) * 365 + (y - 1) div 4 - (y - 1) div 100 + (y - 1) div 400"

definition days_before_month :: "int \<Rightarrow> int \<Rightarrow> int" where
  "days_before_month y m = sum_list (map (days_in_month y) [1..m - 1])"

definition ymd2ord :: "date \<Rightarrow> int" where
  "ymd2ord dt = (case dt of (y, m, d) \<Rightarrow> days_before_year y + days_before_month y m + d)"

definition ord2ymd :: "int \<Rightarrow> date" where
  "ord2ymd ordinal =
     (let n0 = ordinal - 1;
          n400 = n0 div 146097; n1 = n0 mod 146097;
          n100 = n1 div 36524; n2 = n1 mod 36524;
          n4 = n2 div 1461; n3 = n2 mod 1461;
          ny = n3 div 365; n = n3 mod 365;
          year = n400 * 400 + 1 + n100 * 100 + n4 * 4 + ny
      in if ny = 4 \<or> n100 = 4 then (year - 1, 12, 31)
         else
           (let leapyear = (ny = 3 \<and> (n4 \<noteq> 24 \<or> n100 = 3));
                y = (if leapyear then 4 else 1);
                month0 = (n + 50) div 32;
                preceding0 = days_before_month y month0;
                month = (if preceding0 > n then month0 - 1 else month0);
                preceding = (if preceding0 > n then preceding0 - days_in_month y month else preceding0)
            in (year, month, n - preceding + 1)))"

text \<open>
  \<open>datetime.strptime(s, "%Y-%m-%d")\<close>: four digits, one or two digits for the month and
  for the day (the day may also be a space and a digit), then the date must exist;
  \<open>None\<close> stands for the \<open>ValueError\<close>.
\<close>

fun split_on :: "char \<Rightarrow> string \<Rightarrow> string \<Rightarrow> string list" where
  "split_on sep acc [] = [rev acc]"
| "split_on sep acc (c # cs) =
     (if c = sep then rev acc # split_on sep [] cs else split_on sep (c # acc) cs)"

definition month_field :: "string \<Rightarrow> nat option" where
  "month_field s =
     (if length s = 1 \<or> length s = 2 then
        (case digits_val 0 s of
           None \<Rightarrow> None
         | Some m \<Rightarrow> if 1 \<le> m \<and> m \<le> 12 then Some m else None)
      else None)"

definition day_field :: "string \<Rightarrow> nat option" where
  "day_field s =
     (let t = (if length s = 2 \<and> hd s = CHR '' '' then tl s else s) in
      if length t = 1 \<or> length t = 2 then
        (case digits_val 0 t of
           None \<Rightarrow> None
         | Some d \<Rightarrow> if 1 \<le> d \<and> d \<le> 31 then Some d else None)
      else None)"

definition strptime_ymd :: "string \<Rightarrow> date option" where
  "strptime_ymd s =
     (case split_on CHR ''-'' [] s of
        [ys, ms, ds] \<Rightarrow>
          (if length ys = 4 then
             (case (digits_val 0 ys, month_field ms, day_field ds) of
                (Some y, Some m, Some d) \<Rightarrow>
                  (case datetime_new (int y) (int m) (int d) of
                     Inl e \<Rightarrow> None
                   | Inr dt \<Rightarrow> Some dt)
              | _ \<Rightarrow> None)
           else None)
      | _ \<Rightarrow> None)"

section \<open>Random generator (generation/generators/random_generator.py)\<close>

text \<open>\<open>_generate_subject_ids\<close>: \<open>SUBJ000001\<close>, \<open>SUBJ000002\<close>, ... when a variable is named USUBJID.\<close>

definition generate_subject_ids :: "DomainGenerationConfig \<Rightarrow> string list" where
  "generate_subject_ids cfg =
     (let needs_subjects = (\<exists>var \<in> set (variables cfg). variable_name var = ''USUBJID'') in
      if \<not> needs_subjects then []
      else map (\<lambda>i. ''SUBJ'' @ zfill 6 (str_nat (i + 1))) [0..<nat (subject_count cfg)])"

text \<open>The USUBJID branch of \<open>_generate_variable_data\<close>, for a non-empty list of subject ids.\<close>

definition repeat_subject_ids :: "int \<Rightarrow> string list \<Rightarrow> string list" where
  "repeat_subject_ids rc subject_ids =
     (let records_per_subject = max 1 (rc div int (length subject_ids));
          remaining = rc mod int (length subject_ids);
          values = concat (map (\<lambda>subject_id. replicate (nat records_per_subject) subject_id) subject_ids)
      in if remaining > 0 then values @ take (nat remaining) subject_ids else values)"

text \<open>
  A bound used as a number: a string bound is not a number (arithmetic or numpy on it
  raises).
\<close>

definition numeric_bounds :: "bound \<Rightarrow> bound \<Rightarrow> error + real \<times> real" where
  "numeric_bounds lo hi =
     (case (bound_num lo, bound_num hi) of
        (Some a, Some b) \<Rightarrow> Inr (a, b)
      | _ \<Rightarrow> Inl (TypeError ''unsupported operand type(s): str''))"

text \<open>The \<open>if/elif\<close> chain of \<open>_generate_numeric_data\<close> on the distribution.\<close>

definition numeric_values ::
  "int \<Rightarrow> DataDistribution \<Rightarrow> DistributionParams \<Rightarrow> bound \<Rightarrow> bound \<Rightarrow> (nat \<Rightarrow> real)
     \<Rightarrow> error + real list" where
  "numeric_values rc d params min_b max_b \<rho> =
     (if d = NORMAL then
        (case numeric_bounds min_b max_b of
           Inl e \<Rightarrow> Inl e
         | Inr (lo, hi) \<Rightarrow>
             (case np_random_normal (get_or (p_mean params) ((lo + hi) / 2))
                     (get_or (p_std params) ((hi - lo) / 6)) rc \<rho> of
                Inl e \<Rightarrow> Inl e
              | Inr values \<Rightarrow> Inr (map (\<lambda>v. min (max v lo) hi) values)))
      else if d = UNIFORM then
        (case numeric_bounds min_b max_b of
           Inl e \<Rightarrow> Inl e
         | Inr (lo, hi) \<Rightarrow> np_random_uniform lo hi rc \<rho>)
      else if d = POISSON then np_random_poisson (get_or (p_lambda params) 5) rc \<rho>
      else if d = EXPONENTIAL then np_random_exponential (get_or (p_scale params) 1) rc \<rho>
      else if d = BINOMIAL then
        np_random_binomial (real_of_int (get_or (p_n params) 10)) (get_or (p_p params) 0.5) rc \<rho>
      else
        (case numeric_bounds min_b max_b of
           Inl e \<Rightarrow> Inl e
         | Inr (lo, hi) \<Rightarrow> np_random_uniform lo hi rc \<rho>))"

definition generate_numeric_data :: "int \<Rightarrow> VariableGenerationConfig \<Rightarrow> rng \<Rightarrow> error + cell list" where
  "generate_numeric_data rc variable \<rho> =
     (let d = get_or (distribution variable) NORMAL;
          c = get_or (constraints variable) default_constraint;
          params = get_or (distribution_params variable) default_params;
          min_b = get_or (min_value c) (BFloat 0);
          max_b = get_or (max_value c) (BFloat 100)
      in case numeric_values rc d params min_b max_b (\<rho> 0) of
           Inl e \<Rightarrow> Inl e
         | Inr values \<Rightarrow>
             (let result =
                (if is_int_bound min_b \<and> is_int_bound max_b \<and> get_or (p_integer params) False
                 then map (\<lambda>x. real_of_int (py_int x)) values else values)
              in Inr (apply_nulls c (\<rho> 1) (map Num result))))"

definition generate_categorical_data ::
  "np_text \<Rightarrow> int \<Rightarrow> VariableGenerationConfig \<Rightarrow> rng \<Rightarrow> error + cell list" where
  "generate_categorical_data \<tau> rc variable \<rho> =
     (let c = get_or (constraints variable) default_constraint;
          params = get_or (distribution_params variable) default_params;
          given = get_or (allowed_values c) [];
          allowed = (if given = []
                     then [Str ''Category A'', Str ''Category B'', Str ''Category C'', Str ''Category D'']
                     else given);
          given_p = get_or (p_probabilities params) [];
          probabilities =
            (if given_p \<noteq> [] \<and> length given_p = length allowed then
               (let total = sum_list given_p in
                if total \<noteq> 1 then
                  (if total = 0 then Inl (ZeroDivisionError ''float division by zero'')
                   else Inr (map (\<lambda>p. p / total) given_p))
                else Inr given_p)
             else Inr (replicate (length allowed) (1 / real (length allowed))))
      in case probabilities of
           Inl e \<Rightarrow> Inl e
         | Inr ps \<Rightarrow>
             (case np_random_choice (np_array \<tau> allowed) rc ps (\<rho> 0) of
                Inl e \<Rightarrow> Inl e
              | Inr result \<Rightarrow> Inr (apply_nulls c (\<rho> 1) result)))"

text \<open>
  \<open>_generate_date_data\<close>: a string bound is parsed and replaced by the default when it
  does not parse; any other bound is replaced by the default.
\<close>

definition date_bound :: "bound option \<Rightarrow> date \<Rightarrow> date" where
  "date_bound b dflt =
     (case b of
        Some (BStr s) \<Rightarrow> (case strptime_ymd s of None \<Rightarrow> dflt | Some dt \<Rightarrow> dt)
      | _ \<Rightarrow> dflt)"

definition generate_date_data :: "int \<Rightarrow> VariableGenerationConfig \<Rightarrow> rng \<Rightarrow> error + cell list" where
  "generate_date_data rc variable \<rho> =
     (let c = get_or (constraints variable) default_constraint;
          min_date = date_bound (min_value c) (2020, 1, 1);
          max_date = date_bound (max_value c) (2023, 12, 31);
          date_range = ymd2ord max_date - ymd2ord min_date
      in case map_err
                (\<lambda>i. case random_randint 0 date_range (\<rho> 0 i) of
                        Inl e \<Rightarrow> Inl e
                      | Inr random_days \<Rightarrow>
                          Inr (Str (strftime_ymd (ord2ymd (ymd2ord min_date + random_days)))))
                [0..<nat rc] of
           Inl e \<Rightarrow> Inl e
         | Inr result \<Rightarrow> Inr (apply_nulls c (\<rho> 1) result))"

text \<open>
  \<open>_generate_text_data\<close>. With a format pattern, \<open>L\<close> becomes a random letter and \<open>D\<close> a
  random digit; otherwise random words are joined by spaces and cut at \<open>max_length\<close>
  (\<open>text[:max_length]\<close>, where a negative length counts from the end). Row \<open>r\<close> draws
  from the stream \<open>\<rho> (2 + r)\<close>.
\<close>

definition pattern_text :: "string \<Rightarrow> (nat \<Rightarrow> real) \<Rightarrow> string" where
  "pattern_text pattern u =
     map (\<lambda>(j, ch).
            if ch = CHR ''L'' then random_choice ''ABCDEFGHIJKLMNOPQRSTUVWXYZ'' (u j)
            else if ch = CHR ''D'' then random_choice ''0123456789'' (u j)
            else ch)
         (enumerate 0 pattern)"

definition words :: "string list" where
  "words = [''lorem'', ''ipsum'', ''dolor'', ''sit'', ''amet'', ''consectetur'',
            ''adipiscing'', ''elit'', ''sed'', ''do'', ''eiusmod'', ''tempor'',
            ''incididunt'', ''ut'', ''labore'', ''et'', ''dolore'', ''magna'', ''aliqua'']"

fun join_spaces :: "string list \<Rightarrow> string" where
  "join_spaces [] = []"
| "join_spaces [w] = w"
| "join_spaces (w # ws) = w @ '' '' @ join_spaces ws"

definition slice_to :: "int \<Rightarrow> string \<Rightarrow> string" where
  "slice_to k s = (if 0 \<le> k then take (nat k) s else take (nat (int (length s) + k)) s)"

definition words_text :: "int \<Rightarrow> int \<Rightarrow> real \<Rightarrow> (nat \<Rightarrow> real) \<Rightarrow> error + string" where
  "words_text min_length max_length u0 u =
     (case random_randint min_length max_length u0 of
        Inl e \<Rightarrow> Inl e
      | Inr len \<Rightarrow>
          Inr (slice_to max_length
                 (join_spaces (map (\<lambda>j. random_choice words (u j)) [0..<nat len]))))"

definition generate_text_data :: "int \<Rightarrow> VariableGenerationConfig \<Rightarrow> rng \<Rightarrow> error + cell list" where
  "generate_text_data rc variable \<rho> =
     (let c = get_or (constraints variable) default_constraint;
          params = get_or (distribution_params variable) default_params;
          pattern = get_or (format_pattern c) [];
          result =
            (if pattern \<noteq> [] then
               Inr (map (\<lambda>r. Str (pattern_text pattern (\<rho> (2 + r)))) [0..<nat rc])
             else
               map_err
                 (\<lambda>r. case words_text (get_or (p_min_length params) 5)
                                (get_or (p_max_length params) 20) (\<rho> 0 r) (\<rho> (2 + r)) of
                         Inl e \<Rightarrow> Inl e
                       | Inr text \<Rightarrow> Inr (Str text))
                 [0..<nat rc])
      in case result of
           Inl e \<Rightarrow> Inl e
         | Inr texts \<Rightarrow> Inr (apply_nulls c (\<rho> 1) texts))"

text \<open>\<open>_generate_variable_data\<close>: the USUBJID branch first, then the dispatch on the type.\<close>

definition generate_variable_data ::
  "np_text \<Rightarrow> int \<Rightarrow> VariableGenerationConfig \<Rightarrow> string list \<Rightarrow> rng \<Rightarrow> error + cell list" where
  "generate_variable_data \<tau> rc variable subject_ids \<rho> =
     (let dtype = lower (data_type variable) in
      if variable_name variable = ''USUBJID'' \<and> subject_ids \<noteq> []
      then Inr (map Str (repeat_subject_ids rc subject_ids))
      else if dtype = ''numeric'' then generate_numeric_data rc variable \<rho>
      else if dtype = ''categorical'' then generate_categorical_data \<tau> rc variable \<rho>
      else if dtype = ''date'' then generate_date_data rc variable \<rho>
      else generate_text_data rc variable \<rho>)"

section \<open>Result objects and finalization (generation/generators/base.py)\<close>

text \<open>
  \<open>VariableGenerationStats\<close> and \<open>DomainGenerationResult\<close>: the counts, the status, the
  error message, the quality checks and the score. Timestamps, the observed minimum and
  maximum and \<open>distribution_stats\<close> are not modelled, except for the exception their
  computation raises. \<open>variable_stats\<close> is a dict keyed by the variable name.
\<close>

record VariableGenerationStats =
  stats_variable_name :: string
  stats_data_type :: string
  generated_count :: int
  missing_count :: int
  unique_count :: "int option"
  quality_checks :: "DataQualityCheck list"

record DomainGenerationResult =
  result_domain_name :: string
  result_domain_type :: string
  status :: GenerationStatus
  result_record_count :: int
  result_subject_count :: int
  variable_stats :: "(string \<times> VariableGenerationStats) list"
  error_message :: "string option"
  quality_score :: "real option"

definition initial_stats :: "VariableGenerationConfig \<Rightarrow> VariableGenerationStats" where
  "initial_stats variable =
     \<lparr>stats_variable_name = variable_name variable, stats_data_type = data_type variable,
      generated_count = 0, missing_count = 0, unique_count = None, quality_checks = []\<rparr>"

definition initialize_result :: "DomainGenerationConfig \<Rightarrow> DomainGenerationResult" where
  "initialize_result cfg =
     \<lparr>result_domain_name = domain_name cfg, result_domain_type = domain_type cfg,
      status = PENDING, result_record_count = 0, result_subject_count = 0,
      variable_stats =
        foldl (\<lambda>vs variable. AList.update (variable_name variable) (initial_stats variable) vs)
          [] (variables cfg),
      error_message = None, quality_score = None\<rparr>"

text \<open>
  The type-specific statistics of \<open>update_generation_stats\<close> raise on a numeric
  variable whose column is not empty, not all missing, and holds a string: \<open>min\<close>,
  \<open>max\<close> or \<open>mean\<close> of such a column is a \<open>TypeError\<close>. The categorical statistics
  raise nothing and the date statistics are inside \<open>try/except\<close>.
\<close>

definition type_stats_error :: "VariableGenerationConfig \<Rightarrow> cell list \<Rightarrow> error option" where
  "type_stats_error variable col =
     (if lower (data_type variable) = ''numeric'' \<and> col \<noteq> [] \<and> (\<exists>c \<in> set col. c \<noteq> Null)
         \<and> (\<exists>c \<in> set col. case c of Str s \<Rightarrow> True | _ \<Rightarrow> False)
      then Some (TypeError ''Could not convert string to numeric'')
      else None)"

text \<open>
  One iteration of the loop of \<open>update_generation_stats\<close>. A step either returns the
  updated result or raises, and then the result as mutated so far is what the caller's
  \<open>except\<close> clause sees.
\<close>

definition update_variable_stats ::
  "DataFrame \<Rightarrow> DomainGenerationResult \<Rightarrow> VariableGenerationConfig
     \<Rightarrow> error \<times> DomainGenerationResult + DomainGenerationResult" where
  "update_variable_stats data r variable =
     (case map_of data (variable_name variable) of
        None \<Rightarrow> Inr r
      | Some col \<Rightarrow>
          (case map_of (variable_stats r) (variable_name variable) of
             None \<Rightarrow> Inl (KeyError (variable_name variable), r)
           | Some stats \<Rightarrow>
               (let stats' = stats\<lparr>generated_count := int (len_df data),
                                    missing_count := int (isna_sum col),
                                    unique_count := Some (int (nunique col))\<rparr>;
                    r' = r\<lparr>variable_stats :=
                             AList.update (variable_name variable) stats' (variable_stats r)\<rparr>
                in case type_stats_error variable col of
                     Some e \<Rightarrow> Inl (e, r')
                   | None \<Rightarrow> Inr r')))"

fun update_all_stats ::
  "DataFrame \<Rightarrow> DomainGenerationResult \<Rightarrow> VariableGenerationConfig list
     \<Rightarrow> error \<times> DomainGenerationResult + DomainGenerationResult" where
  "update_all_stats data r [] = Inr r"
| "update_all_stats data r (v # vs) =
     (case update_variable_stats data r v of
        Inl x \<Rightarrow> Inl x
      | Inr r' \<Rightarrow> update_all_stats data r' vs)"

definition update_generation_stats ::
  "DomainGenerationConfig \<Rightarrow> DataFrame \<Rightarrow> DomainGenerationResult
     \<Rightarrow> error \<times> DomainGenerationResult + DomainGenerationResult" where
  "update_generation_stats cfg data r =
     (let r1 = r\<lparr>result_record_count := int (len_df data)\<rparr>;
          r2 = (case map_of data ''USUBJID'' of
                  None \<Rightarrow> r1
                | Some col \<Rightarrow> r1\<lparr>result_subject_count := int (nunique col)\<rparr>)
      in update_all_stats data r2 (variables cfg))"

text \<open>Attaching each check to the statistics of its variable.\<close>

definition attach_check ::
  "(string \<times> VariableGenerationStats) list \<Rightarrow> DataQualityCheck \<Rightarrow> (string \<times> VariableGenerationStats) list" where
  "attach_check vs c =
     (case check_variable_name c of
        None \<Rightarrow> vs
      | Some name \<Rightarrow>
          (case map_of vs name of
             None \<Rightarrow> vs
           | Some stats \<Rightarrow>
               AList.update name (stats\<lparr>quality_checks := quality_checks stats @ [c]\<rparr>) vs))"

definition finalize_result ::
  "DomainGenerationConfig \<Rightarrow> DataFrame \<Rightarrow> DomainGenerationResult
     \<Rightarrow> error \<times> DomainGenerationResult + DomainGenerationResult" where
  "finalize_result cfg data r =
     (case update_generation_stats cfg data r of
        Inl x \<Rightarrow> Inl x
      | Inr r1 \<Rightarrow>
          (case perform_quality_checks (record_count cfg) data (variables cfg) of
             Inl e \<Rightarrow> Inl (e, r1)
           | Inr checks \<Rightarrow>
               (let r2 = r1\<lparr>variable_stats := foldl attach_check (variable_stats r1) checks\<rparr>;
                    score = calculate_quality_score (result_record_count r2) checks
                in Inr (r2\<lparr>status := COMPLETED, quality_score := Some score\<rparr>))))"

text \<open>The \<open>except Exception\<close> clause of both \<open>generate\<close> methods.\<close>

definition fail_with :: "error \<Rightarrow> DomainGenerationResult \<Rightarrow> DomainGenerationResult" where
  "fail_with e r = r\<lparr>status := FAILED, error_message := Some (error_str e)\<rparr>"

section \<open>RandomGenerator.generate\<close>

text \<open>
  The loop \<open>data[var_name] = self._generate_variable_data(variable, subject_ids)\<close>; the
  variable at position \<open>i\<close> draws from the stream \<open>\<rho> i\<close>.
\<close>

fun generate_columns ::
  "(nat \<Rightarrow> np_text) \<Rightarrow> int \<Rightarrow> string list \<Rightarrow> (nat \<Rightarrow> rng) \<Rightarrow> nat \<Rightarrow> (string \<times> cell list) list
     \<Rightarrow> VariableGenerationConfig list \<Rightarrow> error + (string \<times> cell list) list" where
  "generate_columns \<tau> rc subject_ids \<rho> i data [] = Inr data"
| "generate_columns \<tau> rc subject_ids \<rho> i data (v # vs) =
     (case generate_variable_data (\<tau> i) rc v subject_ids (\<rho> i) of
        Inl e \<Rightarrow> Inl e
      | Inr col \<Rightarrow>
          generate_columns \<tau> rc subject_ids \<rho> (Suc i) (AList.update (variable_name v) col data) vs)"

text \<open>
  The \<open>try\<close> block of \<open>generate\<close>: either the exception with the result object as it
  stands, or the data frame and the finalized result.
\<close>

definition random_generate_try ::
  "(nat \<Rightarrow> np_text) \<Rightarrow> DomainGenerationConfig \<Rightarrow> (nat \<Rightarrow> rng)
     \<Rightarrow> error \<times> DomainGenerationResult + DataFrame \<times> DomainGenerationResult" where
  "random_generate_try \<tau> cfg \<rho> =
     (let r = (initialize_result cfg)\<lparr>status := IN_PROGRESS\<rparr>;
          subject_ids = generate_subject_ids cfg
      in case generate_columns \<tau> (record_count cfg) subject_ids \<rho> 0 [] (variables cfg) of
           Inl e \<Rightarrow> Inl (e, r)
         | Inr data \<Rightarrow>
             (case pd_DataFrame data of
                Inl e \<Rightarrow> Inl (e, r)
              | Inr df \<Rightarrow>
                  (case finalize_result cfg df r of
                     Inl x \<Rightarrow> Inl x
                   | Inr r' \<Rightarrow> Inr (df, r'))))"

definition random_generate ::
  "(nat \<Rightarrow> np_text) \<Rightarrow> DomainGenerationConfig \<Rightarrow> (nat \<Rightarrow> rng) \<Rightarrow> DomainGenerationResult" where
  "random_generate \<tau> cfg \<rho> =
     (case random_generate_try \<tau> cfg \<rho> of
        Inl (e, r) \<Rightarrow> fail_with e r
      | Inr (df, r) \<Rightarrow> r)"

text \<open>
  A fixed stream per variable and a text for numbers (the decimal digits of the integer
  part), used in the examples.
\<close>

definition plain_text :: "nat \<Rightarrow> np_text" where
  "plain_text v i x = (if x < 0 then ''-'' else []) @ str_nat (nat \<lfloor>\<bar>x\<bar>\<rfloor>)"


definition rng_half :: "nat \<Rightarrow> rng" where
  "rng_half v c i = 1 / 2"

section \<open>Statistical generator (generation/generators/statistical_generator.py)\<close>




















section \<open>Example configurations\<close>

text \<open>A subject identifier, an age, and two domains.\<close>

definition usubjid_variable :: VariableGenerationConfig where
  "usubjid_variable =
     \<lparr>variable_name = ''USUBJID'', data_type = ''text'', distribution = None,
      distribution_params = None, constraints = None\<rparr>"


definition dm_config :: DomainGenerationConfig where
  "dm_config =
     \<lparr>domain_name = ''DM'', domain_type = ''DM'', record_count = 2, subject_count = 2,
      variables = [usubjid_variable]\<rparr>"


text \<open>
  Further example configurations: more subjects than records with USUBJID as the only
  variable, and a USUBJID variable declared numeric.
\<close>

definition surplus_subjects_config :: DomainGenerationConfig where
  "surplus_subjects_config =
     \<lparr>domain_name = ''DM'', domain_type = ''DM'', record_count = 3, subject_count = 5,
      variables = [usubjid_variable]\<rparr>"



section \<open>Properties of the quality score\<close>

lemma score_loop_all_passed:
  "(\<forall>c \<in> set cs. passed c) \<Longrightarrow> score_loop n s cs = s"
  by (induction cs arbitrary: s) auto

lemma score_loop_append:
  "score_loop n s (xs @ ys) = score_loop n (score_loop n s xs) ys"
  by (induction xs arbitrary: s) auto

lemma score_loop_skip_passed:
  "passed c \<Longrightarrow> score_loop n s (xs @ c # ys) = score_loop n s (xs @ ys)"
  by (simp add: score_loop_append)

text \<open>
  C4 (as amended). The score always lies in [0,100]. An empty list of checks scores
  exactly 100 whatever the row count; a non-empty list of checks on a result with zero
  rows scores 0; a list of checks that all passed, on a result with at least one row,
  scores exactly 100.
\<close>

theorem calculate_quality_score_range:
  "0 \<le> calculate_quality_score n cs \<and> calculate_quality_score n cs \<le> 100
   \<and> (cs = [] \<longrightarrow> calculate_quality_score n cs = 100)
   \<and> (cs \<noteq> [] \<and> n = 0 \<longrightarrow> calculate_quality_score n cs = 0)
   \<and> (n \<noteq> 0 \<and> (\<forall>c \<in> set cs. passed c) \<longrightarrow> calculate_quality_score n cs = 100)"
  by (auto simp: calculate_quality_score_def score_loop_all_passed)

theorem calculate_quality_score_range_witness:
  "calculate_quality_score 4
     [\<lparr>check_name = ''AGE_below_minimum'', check_type = OUT_OF_RANGE,
       check_variable_name = Some ''AGE'', passed = False, issue_count = 2\<rparr>] = 95
   \<and> calculate_quality_score 4 [] = 100
   \<and> calculate_quality_score 0
     [\<lparr>check_name = ''AGE_below_minimum'', check_type = OUT_OF_RANGE,
       check_variable_name = Some ''AGE'', passed = False, issue_count = 2\<rparr>] = 0
   \<and> calculate_quality_score 4
     [\<lparr>check_name = ''AGE_missing_values'', check_type = MISSING_VALUES,
       check_variable_name = Some ''AGE'', passed = True, issue_count = 3\<rparr>] = 100"
  using calculate_quality_score_range [of 4 "[]"]
  by (simp add: calculate_quality_score_def)

text \<open>
  C4 (as stated) fails: a result with zero rows and an empty list of checks scores 100,
  not 0, because the empty-list test comes first.
\<close>

theorem calculate_quality_score_zero_rows_counterexample:
  "calculate_quality_score 0 [] \<noteq> 0"
  by (simp add: calculate_quality_score_def)

section \<open>Properties of the quality checks\<close>

lemma pd_DataFrame_uniform:
  assumes "pd_DataFrame d = Inr data"
  shows "data = d \<and> (\<forall>c \<in> set data. length (snd c) = len_df data)"
proof -
  from assms have eq: "data = d" and all: "\<forall>c \<in> set d. length (snd c) = length (snd (hd d))"
    by (simp_all add: pd_DataFrame_def split: if_splits)
  have "len_df d = length (snd (hd d))" if "d \<noteq> []"
    using that by (cases d) (simp_all add: len_df_def)
  with all eq show ?thesis by (cases d) simp_all
qed

lemma pd_DataFrame_len:
  assumes "pd_DataFrame d = Inr data" and "map_of data name = Some col"
  shows "length col = len_df data"
proof -
  from assms(2) have "(name, col) \<in> set data" by (rule map_of_SomeD)
  with pd_DataFrame_uniform[OF assms(1)] show ?thesis by fastforce
qed

lemma isna_sum_pos_nonempty: "isna_sum col > 0 \<Longrightarrow> length col > 0"
  by (cases col) (auto simp: isna_sum_def)

lemma missing_check_cases:
  "missing_check rc v col = Inr cs \<Longrightarrow> q \<in> set cs \<Longrightarrow>
     isna_sum col > 0 \<and> check_type q = MISSING_VALUES \<and> (\<exists>c. constraints v = Some c \<and> passed q = nullable c)"
  by (auto simp: missing_check_def Let_def split: if_splits option.splits)

lemma duplicate_check_type: "q \<in> set (duplicate_check data v col) \<Longrightarrow> check_type q = DUPLICATE_VALUES"
  by (auto simp: duplicate_check_def Let_def split: if_splits option.splits)

lemma bound_check_type: "bound_check cmp sfx v col b = Inr cs \<Longrightarrow> q \<in> set cs \<Longrightarrow> check_type q = OUT_OF_RANGE"
  by (auto simp: bound_check_def split: if_splits option.splits sum.splits)

lemma range_checks_type: "range_checks v col = Inr cs \<Longrightarrow> q \<in> set cs \<Longrightarrow> check_type q = OUT_OF_RANGE"
  by (auto simp: range_checks_def split: if_splits option.splits sum.splits dest: bound_check_type)

lemma calculate_quality_score_skip_passed:
  "passed q \<Longrightarrow> n \<noteq> 0 \<Longrightarrow>
   calculate_quality_score n (xs @ q # ys) = calculate_quality_score n (xs @ ys)"
  by (auto simp: calculate_quality_score_def score_loop_skip_passed score_loop_all_passed)

text \<open>
  C10. For a variable declared nullable, every missing-values check that
  \<open>perform_quality_checks\<close> records for it has \<open>passed = True\<close> (it is recorded only
  when more than half of \<open>record_count\<close> is missing), and since the score loop skips
  passed checks, the quality score of the table is the same with and without that check.
\<close>

theorem nullable_missing_check_passed:
  assumes "pd_DataFrame d = Inr data"
    and "constraints v = Some c" and "nullable c"
    and "variable_checks rc data v = Inr cs"
    and "q \<in> set cs" and "check_type q = MISSING_VALUES"
  shows "passed q \<and> calculate_quality_score (int (len_df data)) (xs @ q # ys)
                     = calculate_quality_score (int (len_df data)) (xs @ ys)"
proof -
  have "map_of data (variable_name v) \<noteq> None"
  proof
    assume "map_of data (variable_name v) = None"
    with assms(4) have "cs = []" by (simp add: variable_checks_def)
    with assms(5) show False by simp
  qed
  then obtain col where col: "map_of data (variable_name v) = Some col" by blast
  with assms(4) obtain ms rs where
        ms: "missing_check rc v col = Inr ms" and rs: "range_checks v col = Inr rs"
    and cs: "cs = ms @ duplicate_check data v col @ rs"
    by (simp add: variable_checks_def split: sum.splits)
  have "q \<notin> set (duplicate_check data v col)"
    using duplicate_check_type[of q data v col] assms(6) by auto
  moreover have "q \<notin> set rs"
    using range_checks_type[OF rs, of q] assms(6) by auto
  ultimately have qms: "q \<in> set ms"
    using assms(5) cs by simp
  from missing_check_cases[OF ms qms] assms(2,3)
  have p: "passed q" and pos: "isna_sum col > 0" by auto
  have "len_df data > 0"
    using pd_DataFrame_len[OF assms(1) col] isna_sum_pos_nonempty[OF pos] by simp
  then have "int (len_df data) \<noteq> 0" by simp
  from calculate_quality_score_skip_passed[OF p this] p show ?thesis by simp
qed


theorem nullable_missing_check_passed_witness:
  "variable_checks 3 [(''AGE'', [Null, Null, Num 1])]
     \<lparr>variable_name = ''AGE'', data_type = ''numeric'', distribution = None,
       distribution_params = None,
       constraints = Some \<lparr>min_value = None, max_value = None, allowed_values = None,
         format_pattern = None, unique = False, nullable = True, null_probability = 0.6\<rparr>\<rparr>
   = Inr [\<lparr>check_name = ''AGE_missing_values'', check_type = MISSING_VALUES,
            check_variable_name = Some ''AGE'', passed = True, issue_count = 2\<rparr>]
   \<and> calculate_quality_score (int (len_df [(''AGE'', [Null, Null, Num 1])]))
        ([] @ \<lparr>check_name = ''AGE_missing_values'', check_type = MISSING_VALUES,
            check_variable_name = Some ''AGE'', passed = True, issue_count = 2\<rparr> # [])
     = calculate_quality_score (int (len_df [(''AGE'', [Null, Null, Num 1])])) ([] @ [])"
proof -
  let ?d = "[(''AGE'', [Null, Null, Num 1])]"
  let ?c = "\<lparr>min_value = None, max_value = None, allowed_values = None,
         format_pattern = None, unique = False, nullable = True, null_probability = 0.6\<rparr>"
  let ?v = "\<lparr>variable_name = ''AGE'', data_type = ''numeric'', distribution = None,
       distribution_params = None, constraints = Some ?c\<rparr>"
  let ?q = "\<lparr>check_name = ''AGE_missing_values'', check_type = MISSING_VALUES,
            check_variable_name = Some ''AGE'', passed = True, issue_count = 2\<rparr>"
  have h1: "pd_DataFrame ?d = Inr ?d" by (simp add: pd_DataFrame_def)
  have h2: "constraints ?v = Some ?c" by simp
  have h3: "nullable ?c" by simp
  have h4: "variable_checks 3 ?d ?v = Inr [?q]"
    by (simp add: variable_checks_def missing_check_def range_checks_def bound_check_def
        duplicate_check_def isna_sum_def lower_def lower_char_def)
  have h5: "?q \<in> set [?q]" by simp
  have h6: "check_type ?q = MISSING_VALUES" by simp
  from nullable_missing_check_passed[OF h1 h2 h3 h4 h5 h6, of "[]" "[]"] h4 show ?thesis by simp
qed

section \<open>Properties of the numeric sampler\<close>

lemma rint_of_int: "rint (real_of_int k) = k"
  by (simp add: rint_def)

lemma rint_lower: "real_of_int k \<le> x \<Longrightarrow> k \<le> rint x"
proof -
  assume "real_of_int k \<le> x"
  then have "k \<le> \<lfloor>x\<rfloor>" by (simp add: le_floor_iff)
  then show ?thesis by (auto simp: rint_def Let_def)
qed

lemma rint_upper: "x \<le> real_of_int k \<Longrightarrow> rint x \<le> k"
proof -
  assume h: "x \<le> real_of_int k"
  have fl: "\<lfloor>x\<rfloor> \<le> k" using h by linarith
  show ?thesis
  proof (cases "\<lfloor>x\<rfloor> = k")
    case True
    then have "x = real_of_int k" using h by linarith
    then show ?thesis by (simp add: rint_of_int)
  next
    case False
    with fl have "\<lfloor>x\<rfloor> + 1 \<le> k" by simp
    then show ?thesis using fl by (auto simp: rint_def Let_def)
  qed
qed





lemma np_draws_length: "np_draws n f = Inr vs \<Longrightarrow> int (length vs) = n"
  by (auto simp: np_draws_def split: if_splits)

lemma sample_raw_length:
  "sample_raw dn params lo hi n \<rho> = Inr vs \<Longrightarrow> int (length vs) = n"
  by (auto simp: sample_raw_def np_random_normal_def np_random_uniform_def np_random_poisson_def
      np_random_exponential_def np_random_gamma_def np_random_beta_def np_random_lognormal_def
      np_random_binomial_def split: if_splits dest: np_draws_length)

lemma sample_numeric_length:
  "sample_numeric dn params lo hi n as_integer \<rho> = Inr vs \<Longrightarrow> int (length vs) = n"
  by (auto simp: sample_numeric_def split: sum.splits dest: sample_raw_length)

section \<open>Properties of the date repair\<close>






section \<open>Properties of the numeric generators\<close>

lemma apply_nulls_length: "length (apply_nulls c u xs) = length xs"
  by (simp add: apply_nulls_def)


















section \<open>Properties of the categorical generator\<close>





lemma np_random_choice_length: "np_random_choice a n p u = Inr xs \<Longrightarrow> int (length xs) = n"
  by (auto simp: np_random_choice_def split: if_splits)









lemma unique_values_set: "set (unique_values xs) = set xs"
  by (induction xs rule: unique_values.induct) auto

lemma unique_values_distinct: "distinct (unique_values xs)"
  by (induction xs rule: unique_values.induct) (auto simp: unique_values_set)













section \<open>Properties of generate\<close>

lemma update_names: "fst ` set (AList.update k v al) = insert k (fst ` set al)"
  by (induction al) auto

lemma update_set_subset: "set (AList.update k v al) \<subseteq> insert (k, v) (set al)"
  by (induction al) auto





lemma finalize_result_completed: "finalize_result cfg df r = Inr r' \<Longrightarrow> status r' = COMPLETED"
  by (auto simp: finalize_result_def Let_def split: sum.splits)


lemma random_generate_completed:
  "random_generate_try \<tau> cfg \<rho> = Inr (df, r) \<Longrightarrow>
     random_generate \<tau> cfg \<rho> = r \<and> status r = COMPLETED"
  by (auto simp: random_generate_def random_generate_try_def Let_def
      split: sum.splits dest: finalize_result_completed)











text \<open>
  C1 fails on the code. With USUBJID as the only variable, \<open>record_count = 3\<close> and
  \<open>subject_count = 5\<close>, every subject gets \<open>max(1, 3 // 5) = 1\<close> row and
  \<open>3 % 5 = 3\<close> further rows are added: the result is COMPLETED with a table of 8 rows,
  a record count of 8 and a generated count of 8.
\<close>

theorem surplus_subjects_row_count:
  "record_count surplus_subjects_config = 3
   \<and> status (random_generate plain_text surplus_subjects_config rng_half) = COMPLETED
   \<and> result_record_count (random_generate plain_text surplus_subjects_config rng_half) = 8
   \<and> map (\<lambda>(name, stats). generated_count stats)
        (variable_stats (random_generate plain_text surplus_subjects_config rng_half)) = [8]
   \<and> (case random_generate_try plain_text surplus_subjects_config rng_half of
         Inl x \<Rightarrow> False
       | Inr (df, r) \<Rightarrow> len_df df = 8)"
  by code_simp

section \<open>Row counts of the random generator\<close>

lemma map_err_length: "map_err f xs = Inr ys \<Longrightarrow> length ys = length xs"
  by (induction xs arbitrary: ys) (auto split: sum.splits)

lemma concat_replicate_length: "length (concat (map (\<lambda>s. replicate k s) xs)) = length xs * k"
  by (induction xs) auto

lemma repeat_subject_ids_length:
  assumes "subject_ids \<noteq> []" and "int (length subject_ids) \<le> rc"
  shows "int (length (repeat_subject_ids rc subject_ids)) = rc"
proof -
  let ?n = "int (length subject_ids)"
  have n: "0 < ?n" using assms(1) by simp
  have "?n div ?n \<le> rc div ?n" using n assms(2) by (intro zdiv_mono1) auto
  then have q: "1 \<le> rc div ?n" using n by simp
  have m: "0 \<le> rc mod ?n" "rc mod ?n < ?n" using n by simp_all
  have tk: "length (take (nat (rc mod ?n)) subject_ids) = nat (rc mod ?n)"
    using m by simp
  have "int (length (repeat_subject_ids rc subject_ids)) = ?n * (rc div ?n) + rc mod ?n"
    using q m tk by (auto simp: repeat_subject_ids_def Let_def concat_replicate_length max_def)
  then show ?thesis by simp
qed

lemma numeric_values_length:
  "numeric_values rc d params lo hi \<rho> = Inr vs \<Longrightarrow> int (length vs) = rc"
  by (auto simp: numeric_values_def np_random_normal_def np_random_uniform_def np_random_poisson_def
      np_random_exponential_def np_random_binomial_def np_draws_def
      split: if_splits sum.splits)

lemma generate_numeric_data_length:
  "generate_numeric_data rc v \<rho> = Inr col \<Longrightarrow> int (length col) = rc"
  by (auto simp: generate_numeric_data_def Let_def apply_nulls_length
      split: sum.splits dest: numeric_values_length)

lemma generate_categorical_data_length:
  "generate_categorical_data \<tau> rc v \<rho> = Inr col \<Longrightarrow> int (length col) = rc"
  by (auto simp: generate_categorical_data_def Let_def apply_nulls_length
      split: sum.splits if_splits dest: np_random_choice_length)

lemma generate_date_data_length:
  "generate_date_data rc v \<rho> = Inr col \<Longrightarrow> 0 \<le> rc \<Longrightarrow> int (length col) = rc"
  by (auto simp: generate_date_data_def Let_def apply_nulls_length
      split: sum.splits dest: map_err_length)

lemma generate_text_data_length:
  "generate_text_data rc v \<rho> = Inr col \<Longrightarrow> 0 \<le> rc \<Longrightarrow> int (length col) = rc"
  by (auto simp: generate_text_data_def Let_def apply_nulls_length
      split: sum.splits if_splits dest: map_err_length)

lemma generate_variable_data_length:
  assumes "generate_variable_data \<tau> rc v sids \<rho> = Inr col" and "0 \<le> rc"
    and "sids = [] \<or> int (length sids) \<le> rc"
  shows "int (length col) = rc"
  using assms
  by (auto simp: generate_variable_data_def Let_def repeat_subject_ids_length
      split: if_splits
      dest: generate_numeric_data_length generate_categorical_data_length
        generate_date_data_length generate_text_data_length)


lemma generate_columns_lengths:
  assumes "generate_columns \<tau> rc sids \<rho> i data0 vs = Inr data'"
    and "\<forall>c \<in> set data0. int (length (snd c)) = rc"
    and "0 \<le> rc" and "sids = [] \<or> int (length sids) \<le> rc"
  shows "(\<forall>c \<in> set data'. int (length (snd c)) = rc)
         \<and> fst ` set data' = fst ` set data0 \<union> variable_name ` set vs"
  using assms
proof (induction vs arbitrary: i data0)
  case Nil
  then show ?case by simp
next
  case (Cons v vs)
  from Cons.prems(1) obtain col where
    col: "generate_variable_data (\<tau> i) rc v sids (\<rho> i) = Inr col"
    and rest: "generate_columns \<tau> rc sids \<rho> (Suc i) (AList.update (variable_name v) col data0) vs = Inr data'"
    by (auto split: sum.splits)
  from generate_variable_data_length[OF col Cons.prems(3,4)] have len: "int (length col) = rc" .
  have all: "\<forall>c \<in> set (AList.update (variable_name v) col data0). int (length (snd c)) = rc"
  proof
    fix c assume "c \<in> set (AList.update (variable_name v) col data0)"
    then have "c = (variable_name v, col) \<or> c \<in> set data0"
      using update_set_subset[of "variable_name v" col data0] by blast
    then show "int (length (snd c)) = rc" using Cons.prems(2) len by auto
  qed
  from Cons.IH[OF rest all Cons.prems(3,4)] show ?case by (auto simp: update_names)
qed

lemma pd_DataFrame_same_length:
  assumes "\<forall>c \<in> set d. int (length (snd c)) = rc"
  shows "pd_DataFrame d = Inr d"
proof -
  have "length (snd c) = length (snd (hd d))" if "c \<in> set d" for c
  proof -
    from that have "d \<noteq> []" by auto
    then have "hd d \<in> set d" by simp
    with assms that have "int (length (snd c)) = int (length (snd (hd d)))" by simp
    then show ?thesis by simp
  qed
  then show ?thesis by (simp add: pd_DataFrame_def)
qed

lemma len_df_same_length:
  "\<forall>c \<in> set d. int (length (snd c)) = rc \<Longrightarrow> d \<noteq> [] \<Longrightarrow> int (len_df d) = rc"
  by (cases d) (simp_all add: len_df_def)


lemma update_distinct_entry:
  "distinct (map fst al) \<Longrightarrow> (n, s) \<in> set (AList.update k v al) \<Longrightarrow>
     (n = k \<and> s = v) \<or> (n \<noteq> k \<and> (n, s) \<in> set al)"
proof (induction al)
  case Nil
  then show ?case by simp
next
  case (Cons a al)
  obtain k' v' where a: "a = (k', v')" by (cases a)
  show ?case
  proof (cases "k = k'")
    case True
    with Cons.prems a have "(n, s) = (k, v) \<or> (n, s) \<in> set al" by simp
    moreover have "n \<noteq> k" if "(n, s) \<in> set al"
      using that Cons.prems(1) a True by (auto simp: image_iff)
    ultimately show ?thesis by auto
  next
    case False
    with Cons.prems a have "(n, s) = (k', v') \<or> (n, s) \<in> set (AList.update k v al)" by simp
    then show ?thesis
    proof
      assume "(n, s) = (k', v')"
      then show ?thesis using False a by auto
    next
      assume "(n, s) \<in> set (AList.update k v al)"
      with Cons.IH Cons.prems(1) show ?thesis by auto
    qed
  qed
qed

lemma initial_stats_keys:
  "distinct (map fst acc) \<Longrightarrow>
   distinct (map fst (foldl (\<lambda>vs variable. AList.update (variable_name variable) (initial_stats variable) vs) acc vars))
   \<and> fst ` set (foldl (\<lambda>vs variable. AList.update (variable_name variable) (initial_stats variable) vs) acc vars)
       = fst ` set acc \<union> variable_name ` set vars"
proof (induction vars arbitrary: acc)
  case Nil
  then show ?case by simp
next
  case (Cons v vs)
  have d: "distinct (map fst (AList.update (variable_name v) (initial_stats v) acc))"
    using Cons.prems by (rule distinct_update)
  from Cons.IH[OF d] show ?case by (auto simp: update_names)
qed

lemma initialize_result_keys:
  "distinct (map fst (variable_stats (initialize_result cfg)))
   \<and> fst ` set (variable_stats (initialize_result cfg)) = variable_name ` set (variables cfg)"
  using initial_stats_keys[of "[]" "variables cfg"] by (simp add: initialize_result_def)

lemma update_variable_stats_inv:
  assumes u: "update_variable_stats df r v = Inr r'"
    and d: "distinct (map fst (variable_stats r))"
    and col: "variable_name v \<in> fst ` set df"
    and inv: "\<forall>(n, s) \<in> set (variable_stats r). n \<in> S \<longrightarrow> generated_count s = int (len_df df)"
  shows "distinct (map fst (variable_stats r'))
       \<and> fst ` set (variable_stats r') = fst ` set (variable_stats r)
       \<and> result_record_count r' = result_record_count r
       \<and> (\<forall>(n, s) \<in> set (variable_stats r').
             n \<in> insert (variable_name v) S \<longrightarrow> generated_count s = int (len_df df))"
proof -
  from col obtain c where c: "map_of df (variable_name v) = Some c"
    by (metis domD dom_map_of_conv_image_fst)
  from u c obtain st where st: "map_of (variable_stats r) (variable_name v) = Some st"
    and r': "r' = r\<lparr>variable_stats := AList.update (variable_name v)
                (st\<lparr>generated_count := int (len_df df), missing_count := int (isna_sum c),
                    unique_count := Some (int (nunique c))\<rparr>) (variable_stats r)\<rparr>"
    by (auto simp: update_variable_stats_def Let_def split: option.splits)
  let ?st = "st\<lparr>generated_count := int (len_df df), missing_count := int (isna_sum c),
                    unique_count := Some (int (nunique c))\<rparr>"
  have k: "variable_name v \<in> fst ` set (variable_stats r)"
    using st by (metis domI dom_map_of_conv_image_fst)
  have 1: "distinct (map fst (variable_stats r'))" unfolding r' using d by (simp add: distinct_update)
  have 2: "fst ` set (variable_stats r') = fst ` set (variable_stats r)"
    unfolding r' using k by (auto simp: update_names)
  have 3: "result_record_count r' = result_record_count r" unfolding r' by simp
  have 4: "\<forall>(n, s) \<in> set (variable_stats r').
             n \<in> insert (variable_name v) S \<longrightarrow> generated_count s = int (len_df df)"
  proof (clarify)
    fix n s assume ns: "(n, s) \<in> set (variable_stats r')" and m: "n \<in> insert (variable_name v) S"
    from ns have "(n, s) \<in> set (AList.update (variable_name v) ?st (variable_stats r))"
      unfolding r' by simp
    from update_distinct_entry[OF d this]
    show "generated_count s = int (len_df df)"
    proof
      assume "n = variable_name v \<and> s = ?st"
      then show ?thesis by simp
    next
      assume "n \<noteq> variable_name v \<and> (n, s) \<in> set (variable_stats r)"
      with m inv show ?thesis by auto
    qed
  qed
  from 1 2 3 4 show ?thesis by blast
qed

lemma update_all_stats_inv:
  assumes "update_all_stats df r vs = Inr r'"
    and "distinct (map fst (variable_stats r))"
    and "variable_name ` set vs \<subseteq> fst ` set df"
    and "\<forall>(n, s) \<in> set (variable_stats r). n \<in> S \<longrightarrow> generated_count s = int (len_df df)"
  shows "fst ` set (variable_stats r') = fst ` set (variable_stats r)
       \<and> result_record_count r' = result_record_count r
       \<and> (\<forall>(n, s) \<in> set (variable_stats r').
             n \<in> S \<union> variable_name ` set vs \<longrightarrow> generated_count s = int (len_df df))"
  using assms
proof (induction vs arbitrary: r S)
  case Nil
  then show ?case by simp
next
  case (Cons v vs)
  from Cons.prems(1) obtain r1 where r1: "update_variable_stats df r v = Inr r1"
    and rest: "update_all_stats df r1 vs = Inr r'"
    by (auto split: sum.splits)
  have col: "variable_name v \<in> fst ` set df" using Cons.prems(3) by simp
  from update_variable_stats_inv[OF r1 Cons.prems(2) col Cons.prems(4)]
  have d1: "distinct (map fst (variable_stats r1))"
    and k1: "fst ` set (variable_stats r1) = fst ` set (variable_stats r)"
    and c1: "result_record_count r1 = result_record_count r"
    and i1: "\<forall>(n, s) \<in> set (variable_stats r1).
             n \<in> insert (variable_name v) S \<longrightarrow> generated_count s = int (len_df df)"
    by blast+
  have sub: "variable_name ` set vs \<subseteq> fst ` set df" using Cons.prems(3) by simp
  from Cons.IH[OF rest d1 sub i1] k1 c1 show ?case by simp
qed

lemma attach_check_inv:
  "\<forall>(n, s) \<in> set vs. generated_count s = L \<Longrightarrow>
   \<forall>(n, s) \<in> set (attach_check vs c). generated_count s = L"
proof -
  assume inv: "\<forall>(n, s) \<in> set vs. generated_count s = L"
  show ?thesis
  proof (cases "check_variable_name c")
    case None
    then show ?thesis using inv by (simp add: attach_check_def)
  next
    case (Some name)
    show ?thesis
    proof (cases "map_of vs name")
      case None
      then show ?thesis using inv Some by (simp add: attach_check_def)
    next
      case (Some st)
      then have "(name, st) \<in> set vs" by (rule map_of_SomeD)
      with inv have g: "generated_count st = L" by auto
      have "attach_check vs c = AList.update name (st\<lparr>quality_checks := quality_checks st @ [c]\<rparr>) vs"
        using Some \<open>check_variable_name c = Some name\<close> by (simp add: attach_check_def)
      then show ?thesis
        using inv g update_set_subset[of name "st\<lparr>quality_checks := quality_checks st @ [c]\<rparr>" vs]
        by auto
    qed
  qed
qed

lemma attach_checks_inv:
  "\<forall>(n, s) \<in> set vs. generated_count s = L \<Longrightarrow>
   \<forall>(n, s) \<in> set (foldl attach_check vs cs). generated_count s = L"
proof (induction cs arbitrary: vs)
  case Nil
  then show ?case by simp
next
  case (Cons c cs)
  from attach_check_inv[OF Cons.prems, of c]
  have "\<forall>(n, s) \<in> set (attach_check vs c). generated_count s = L" .
  from Cons.IH[OF this] show ?case by simp
qed


lemma generate_subject_ids_length:
  assumes "0 \<le> record_count cfg"
    and "(\<exists>v \<in> set (variables cfg). variable_name v = ''USUBJID'') \<longrightarrow>
           subject_count cfg \<le> record_count cfg"
  shows "generate_subject_ids cfg = [] \<or> int (length (generate_subject_ids cfg)) \<le> record_count cfg"
  using assms by (auto simp: generate_subject_ids_def Let_def)

lemma finalize_result_counts:
  assumes fin: "finalize_result cfg df r0 = Inr r"
    and d: "distinct (map fst (variable_stats r0))"
    and k: "fst ` set (variable_stats r0) = variable_name ` set (variables cfg)"
    and cols: "variable_name ` set (variables cfg) \<subseteq> fst ` set df"
  shows "result_record_count r = int (len_df df)
       \<and> (\<forall>(n, s) \<in> set (variable_stats r). generated_count s = int (len_df df))"
proof -
  let ?L = "int (len_df df)"
  let ?r1 = "r0\<lparr>result_record_count := ?L\<rparr>"
  let ?r2 = "(case map_of df ''USUBJID'' of
                  None \<Rightarrow> ?r1
                | Some col \<Rightarrow> ?r1\<lparr>result_subject_count := int (nunique col)\<rparr>)"
  from fin obtain r3 checks where
    u: "update_generation_stats cfg df r0 = Inr r3"
    and r: "r = r3\<lparr>variable_stats := foldl attach_check (variable_stats r3) checks,
                  status := COMPLETED,
                  quality_score := Some (calculate_quality_score (result_record_count r3) checks)\<rparr>"
    by (auto simp: finalize_result_def Let_def split: sum.splits)
  from u have all: "update_all_stats df ?r2 (variables cfg) = Inr r3"
    by (simp add: update_generation_stats_def Let_def)
  have vs2: "variable_stats ?r2 = variable_stats r0" by (simp split: option.splits)
  have rc2: "result_record_count ?r2 = ?L" by (simp split: option.splits)
  have d2: "distinct (map fst (variable_stats ?r2))" using d vs2 by simp
  have i2: "\<forall>(n, s) \<in> set (variable_stats ?r2). n \<in> {} \<longrightarrow> generated_count s = ?L" by simp
  from update_all_stats_inv[OF all d2 cols i2] vs2 rc2 k
  have k3: "fst ` set (variable_stats r3) = variable_name ` set (variables cfg)"
    and c3: "result_record_count r3 = ?L"
    and i3: "\<forall>(n, s) \<in> set (variable_stats r3).
             n \<in> variable_name ` set (variables cfg) \<longrightarrow> generated_count s = ?L"
    by simp_all
  have "\<forall>(n, s) \<in> set (variable_stats r3). generated_count s = ?L"
  proof (clarify)
    fix n s assume ns: "(n, s) \<in> set (variable_stats r3)"
    then have "n \<in> fst ` set (variable_stats r3)" by force
    with k3 i3 ns show "generated_count s = ?L" by auto
  qed
  from attach_checks_inv[OF this, of checks] c3 r show ?thesis by simp
qed

text \<open>
  The row-count invariant where the random generator keeps it. For a configuration with
  at least one variable and a non-negative \<open>record_count = N\<close> in which no variable is
  named USUBJID or \<open>subject_count \<le> N\<close>, a completed result has a table of exactly
  \<open>N\<close> rows, a record count of \<open>N\<close> and a generated count of \<open>N\<close> for every variable.
\<close>

theorem random_generate_row_count:
  assumes t: "random_generate_try \<tau> cfg \<rho> = Inr (df, r)"
    and ne: "variables cfg \<noteq> []"
    and rc0: "0 \<le> record_count cfg"
    and sc: "(\<exists>v \<in> set (variables cfg). variable_name v = ''USUBJID'') \<longrightarrow>
               subject_count cfg \<le> record_count cfg"
  shows "random_generate \<tau> cfg \<rho> = r \<and> status r = COMPLETED
       \<and> int (len_df df) = record_count cfg
       \<and> result_record_count r = record_count cfg
       \<and> (\<forall>(n, s) \<in> set (variable_stats r). generated_count s = record_count cfg)"
proof -
  let ?r0 = "(initialize_result cfg)\<lparr>status := IN_PROGRESS\<rparr>"
  from t obtain d where
    gc: "generate_columns \<tau> (record_count cfg) (generate_subject_ids cfg) \<rho> 0 [] (variables cfg) = Inr d"
    and pdf: "pd_DataFrame d = Inr df"
    and fin: "finalize_result cfg df ?r0 = Inr r"
    by (auto simp: random_generate_try_def Let_def split: sum.splits)
  from generate_columns_lengths[OF gc _ rc0 generate_subject_ids_length[OF rc0 sc]]
  have len: "\<forall>c \<in> set d. int (length (snd c)) = record_count cfg"
    and names: "fst ` set d = variable_name ` set (variables cfg)" by simp_all
  from pd_DataFrame_uniform[OF pdf] have df: "df = d" by simp
  have "d \<noteq> []" using names ne by auto
  from len_df_same_length[OF len this] df have L: "int (len_df df) = record_count cfg" by simp
  have keys: "distinct (map fst (variable_stats ?r0))"
    "fst ` set (variable_stats ?r0) = variable_name ` set (variables cfg)"
    using initialize_result_keys[of cfg] by simp_all
  have cols: "variable_name ` set (variables cfg) \<subseteq> fst ` set df" using names df by simp
  from finalize_result_counts[OF fin keys cols] L
  have "result_record_count r = record_count cfg"
    and "\<forall>(n, s) \<in> set (variable_stats r). generated_count s = record_count cfg" by simp_all
  with random_generate_completed[OF t] L show ?thesis by simp
qed

theorem random_generate_row_count_witness:
  "status (random_generate plain_text dm_config rng_half) = COMPLETED
   \<and> result_record_count (random_generate plain_text dm_config rng_half) = record_count dm_config
   \<and> map (\<lambda>(n, s). generated_count s) (variable_stats (random_generate plain_text dm_config rng_half)) = [2]"
proof -
  obtain df r where t: "random_generate_try plain_text dm_config rng_half = Inr (df, r)"
  proof -
    have "case random_generate_try plain_text dm_config rng_half of Inl x \<Rightarrow> False | Inr y \<Rightarrow> True"
      by code_simp
    then show ?thesis using that by (cases "random_generate_try plain_text dm_config rng_half") auto
  qed
  have ne: "variables dm_config \<noteq> []" by (simp add: dm_config_def)
  have rc0: "0 \<le> record_count dm_config" by (simp add: dm_config_def)
  have sc: "(\<exists>v \<in> set (variables dm_config). variable_name v = ''USUBJID'') \<longrightarrow>
               subject_count dm_config \<le> record_count dm_config" by (simp add: dm_config_def)
  from random_generate_row_count[OF t ne rc0 sc]
  have a: "status (random_generate plain_text dm_config rng_half) = COMPLETED"
    and b: "result_record_count (random_generate plain_text dm_config rng_half) = record_count dm_config"
    by simp_all
  have c: "map (\<lambda>(n, s). generated_count s) (variable_stats (random_generate plain_text dm_config rng_half)) = [2]"
    by code_simp
  from a b c show ?thesis by simp
qed

end
